theory Spec2Isabelle
  imports Main "HOL-Library.Multiset" "HOL-Library.Sublist"
begin

section \<open>NephoScale compute driver (libcloud/compute/drivers/nephoscale.py)\<close>

subsection \<open>Python values\<close>

text \<open>
  The driver works on what the JSON decoder hands it: \<open>None\<close>, booleans, integers,
  strings, lists and dictionaries. A dictionary is an association list read with
  \<open>map_of\<close>; the decoder never produces a repeated key. Floating-point numbers are
  left out of the model.
\<close>

datatype json =
    JNull
  | JBool bool
  | JInt int
  | JStr string
  | JList "json list"
  | JObj "(string \<times> json) list"

text \<open>
  The exceptions the code raises or lets escape. \<open>Exception_body b\<close> is
  \<open>Exception(body)\<close>; \<open>Exception_fmt t e\<close> is \<open>Exception(t + "%s" % e)\<close>, with the
  rendering of \<open>e\<close> kept symbolic.
\<close>

datatype exn =
    InvalidCredsError string
  | Exception string
  | Exception_body json
  | Exception_fmt string exn
  | AttributeError
  | TypeError
  | KeyError

definition then_do :: "exn + 'a \<Rightarrow> ('a \<Rightarrow> exn + 'b) \<Rightarrow> exn + 'b" where
  "then_do r f = (case r of Inl e \<Rightarrow> Inl e | Inr x \<Rightarrow> f x)"

fun map_exn :: "('a \<Rightarrow> exn + 'b) \<Rightarrow> 'a list \<Rightarrow> exn + 'b list" where
  "map_exn f [] = Inr []"
| "map_exn f (x # xs) =
     (case f x of
        Inl e \<Rightarrow> Inl e
      | Inr y \<Rightarrow> (case map_exn f xs of Inl e \<Rightarrow> Inl e | Inr ys \<Rightarrow> Inr (y # ys)))"

text \<open>\<open>d.get(k, default)\<close> on a dictionary, and on any value.\<close>

definition dict_get :: "(string \<times> json) list \<Rightarrow> string \<Rightarrow> json \<Rightarrow> json" where
  "dict_get d k dflt = (case map_of d k of None \<Rightarrow> dflt | Some v \<Rightarrow> v)"

fun py_get :: "json \<Rightarrow> string \<Rightarrow> json \<Rightarrow> exn + json" where
  "py_get (JObj d) k dflt = Inr (dict_get d k dflt)"
| "py_get _ k dflt = Inl AttributeError"

text \<open>Truth value of a Python value (\<open>if x:\<close>).\<close>

fun truthy :: "json \<Rightarrow> bool" where
  "truthy JNull = False"
| "truthy (JBool b) = b"
| "truthy (JInt i) = (i \<noteq> 0)"
| "truthy (JStr s) = (s \<noteq> [])"
| "truthy (JList xs) = (xs \<noteq> [])"
| "truthy (JObj d) = (d \<noteq> [])"

text \<open>
  \<open>for value in x\<close>: a list yields its elements, a dictionary its keys, a string its
  characters; anything else is not iterable.
\<close>

fun py_iter :: "json \<Rightarrow> exn + json list" where
  "py_iter (JList xs) = Inr xs"
| "py_iter (JObj d) = Inr (map (\<lambda>kv. JStr (fst kv)) d)"
| "py_iter (JStr s) = Inr (map (\<lambda>c. JStr [c]) s)"
| "py_iter _ = Inl TypeError"

text \<open>\<open>v == n\<close> for an integer \<open>n\<close> (\<open>True == 1\<close> and \<open>False == 0\<close> in Python).\<close>

fun py_eq_int :: "json \<Rightarrow> int \<Rightarrow> bool" where
  "py_eq_int (JInt i) n = (i = n)"
| "py_eq_int (JBool b) n = ((if b then 1 else 0) = n)"
| "py_eq_int _ n = False"

definition py_in :: "json \<Rightarrow> int list \<Rightarrow> bool" where
  "py_in v ns = list_ex (py_eq_int v) ns"

text \<open>\<open>s.split(sep)\<close>, \<open>s.replace(' ', '')\<close> and \<open>s.startswith(p)\<close>.\<close>

fun split :: "char \<Rightarrow> string \<Rightarrow> string list" where
  "split sep [] = [[]]"
| "split sep (c # cs) =
     (if c = sep then [] # split sep cs
      else (case split sep cs of t # ts \<Rightarrow> (c # t) # ts | [] \<Rightarrow> [[c]]))"

definition replace_spaces :: "string \<Rightarrow> string" where
  "replace_spaces s = filter (\<lambda>c. c \<noteq> CHR '' '') s"

definition startswith :: "string \<Rightarrow> string \<Rightarrow> bool" where
  "startswith s p = (take (length p) s = p)"

subsection \<open>Response normalizer (NephoscaleResponse)\<close>

record http_response =
  status :: int
  body :: json

definition VALID_RESPONSE_CODES :: "int list" where
  "VALID_RESPONSE_CODES = [200, 202, 201, 204]"

definition parse_error :: "http_response \<Rightarrow> exn + json" where
  "parse_error r =
     (if status r = 401 then Inl (InvalidCredsError ''Authorization Failed'')
      else if status r = 404 then Inl (Exception ''The resource you are looking for is not found.'')
      else Inr (body r))"

definition success :: "http_response \<Rightarrow> bool" where
  "success r = (status r \<in> set VALID_RESPONSE_CODES)"

text \<open>
  Modelled from the spec: the constructor that \<open>NephoscaleResponse\<close> inherits from the
  base class \<open>Response\<close> (libcloud.common.base) is not under src/. By section 4.1 of
  the spec it classifies the transport result with \<open>success\<close>; on failure the error of
  \<open>parse_error\<close> is raised, or a generic error carrying the body that \<open>parse_error\<close>
  returned; on success the parsed body is the response's object, unchanged.
\<close>

definition NephoscaleResponse :: "http_response \<Rightarrow> exn + json" where
  "NephoscaleResponse r =
     (if \<not> success r then
        (case parse_error r of Inl e \<Rightarrow> Inl e | Inr b \<Rightarrow> Inl (Exception_body b))
      else Inr (body r))"

subsection \<open>Transport\<close>

text \<open>
  The HTTP transport is an external collaborator: a parameter \<open>tr\<close> that answers a request
  in a state \<open>'w\<close> of the outside world with a status and a parsed body, or with an
  exception of its own, and moves the world on. The connection records every request
  it sends.
\<close>

record request =
  rq_method :: string
  rq_path :: string
  rq_data :: "(string \<times> json) list"

type_synonym 'w transport = "'w \<Rightarrow> request \<Rightarrow> (exn + http_response) \<times> 'w"

record 'w connection =
  world :: 'w
  calls :: "request list"

definition connection_request ::
  "'w transport \<Rightarrow> request \<Rightarrow> 'w connection \<Rightarrow> (exn + json) \<times> 'w connection" where
  "connection_request tr rq c =
     (case tr (world c) rq of
        (r, w') \<Rightarrow> (then_do r NephoscaleResponse, \<lparr>world = w', calls = calls c @ [rq]\<rparr>))"

definition GET :: "string \<Rightarrow> request" where
  "GET p = \<lparr>rq_method = ''GET'', rq_path = p, rq_data = []\<rparr>"

definition DELETE :: "string \<Rightarrow> request" where
  "DELETE p = \<lparr>rq_method = ''DELETE'', rq_path = p, rq_data = []\<rparr>"

definition POST :: "string \<Rightarrow> (string \<times> json) list \<Rightarrow> request" where
  "POST p d = \<lparr>rq_method = ''POST'', rq_path = p, rq_data = d\<rparr>"

subsection \<open>Entities\<close>

text \<open>
  Modelled from the spec: \<open>NodeState\<close> (libcloud.compute.types) is not under src/. The
  spec's lifecycle enumeration has the two states the driver uses. What the driver
  stores as the state of a node is one of these constants or a character string.
\<close>

datatype NodeState = RUNNING | UNKNOWN

datatype state_val = State NodeState | Str string

text \<open>
  Modelled from the spec: the entity classes \<open>Node\<close>, \<open>NodeSize\<close>, \<open>NodeImage\<close> and
  \<open>NodeLocation\<close> (libcloud.compute.base) are not under src/. An entity has the fields of
  section 3 of the spec and is the record of the arguments that the driver passes to
  its constructor, as they are passed; the back-reference \<open>driver\<close> is left out.
  \<open>extra\<close> of a node is \<open>None\<close> where the driver passes none.
\<close>

record node_extra =
  ex_zone_data :: json
  ex_zone :: json
  ex_image :: json
  ex_create_time :: json
  ex_network_ports :: json
  ex_is_console_enabled :: json
  ex_service_type :: json
  ex_hostname :: json

record node =
  node_id :: json
  node_name :: json
  node_state :: state_val
  public_ips :: json
  private_ips :: json
  node_extra :: "node_extra option"

record node_location =
  loc_id :: json
  loc_name :: json
  loc_country :: string

record image_extra =
  im_architecture :: json
  im_disks :: json
  im_billable_type :: json
  im_pcpus :: json
  im_cores :: json
  im_uri :: json
  im_storage :: json

record node_image =
  image_id :: json
  image_name :: json
  image_extra :: image_extra

record 'p node_size =
  size_id :: json
  size_name :: json
  size_ram :: json
  size_disk :: json
  size_bandwidth :: json
  size_price :: 'p

subsection \<open>Entity mapper\<close>

definition NODE_STATE_MAP :: "(string \<times> state_val) list" where
  "NODE_STATE_MAP =
     [(''on'', State RUNNING), (''off'', State UNKNOWN), (''unknown'', State UNKNOWN)]"

text \<open>
  \<open>NODE_STATE_MAP.get(key, default)\<close>: only a string can equal one of the keys; a list
  or a dictionary cannot be hashed and the lookup raises.
\<close>

fun NODE_STATE_MAP_get :: "json \<Rightarrow> state_val \<Rightarrow> exn + state_val" where
  "NODE_STATE_MAP_get (JStr s) dflt =
     Inr (case map_of NODE_STATE_MAP s of None \<Rightarrow> dflt | Some v \<Rightarrow> v)"
| "NODE_STATE_MAP_get (JList xs) dflt = Inl TypeError"
| "NODE_STATE_MAP_get (JObj d) dflt = Inl TypeError"
| "NODE_STATE_MAP_get _ dflt = Inr dflt"

text \<open>The loop over \<open>ip_addresses_list\<close>, with the two lists it appends to.\<close>

fun classify_ips :: "string list \<Rightarrow> string list \<Rightarrow> string list \<Rightarrow> string list \<times> string list" where
  "classify_ips [] public private = (public, private)"
| "classify_ips (ip # rest) public private =
     (let ip' = replace_spaces ip in
      if startswith ip' ''10.'' \<or> startswith ip' ''192.168''
      then classify_ips rest public (private @ [ip'])
      else classify_ips rest (public @ [ip']) private)"

definition to_ips :: "json \<Rightarrow> exn + string list \<times> string list" where
  "to_ips ip_addresses =
     (if truthy ip_addresses then
        (case ip_addresses of
           JStr s \<Rightarrow> Inr (classify_ips (split CHR '','' s) [] [])
         | _ \<Rightarrow> Inl AttributeError)
      else Inr ([], []))"

definition to_node :: "json \<Rightarrow> exn + node" where
  "to_node data =
     then_do (py_get data ''power_status'' JNull) (\<lambda>power_status.
     then_do (NODE_STATE_MAP_get power_status (Str ''4'')) (\<lambda>state.
     then_do (py_get data ''ipaddresses'' (JStr '''')) (\<lambda>ip_addresses.
     then_do (to_ips ip_addresses) (\<lambda>ips.
     then_do (py_get data ''zone'' JNull) (\<lambda>zone_data.
     then_do (then_do (py_get data ''zone'' (JObj [])) (\<lambda>z. py_get z ''name'' JNull)) (\<lambda>zone.
     then_do (then_do (py_get data ''image'' (JObj []))
                (\<lambda>i. py_get i ''friendly_name'' JNull)) (\<lambda>image.
     then_do (py_get data ''create_time'' JNull) (\<lambda>create_time.
     then_do (py_get data ''network_ports'' JNull) (\<lambda>network_ports.
     then_do (py_get data ''is_console_enabled'' JNull) (\<lambda>is_console_enabled.
     then_do (then_do (py_get data ''service_type'' (JObj []))
                (\<lambda>t. py_get t ''friendly_name'' JNull)) (\<lambda>service_type.
     then_do (py_get data ''hostname'' JNull) (\<lambda>hostname.
     then_do (py_get data ''id'' JNull) (\<lambda>ident.
     then_do (py_get data ''name'' JNull) (\<lambda>name.
       Inr \<lparr>node_id = ident, node_name = name, node_state = state,
            public_ips = JList (map JStr (fst ips)),
            private_ips = JList (map JStr (snd ips)),
            node_extra = Some \<lparr>ex_zone_data = zone_data, ex_zone = zone, ex_image = image,
              ex_create_time = create_time, ex_network_ports = network_ports,
              ex_is_console_enabled = is_console_enabled, ex_service_type = service_type,
              ex_hostname = hostname\<rparr>\<rparr>))))))))))))))"

definition to_ssh_key :: "json \<Rightarrow> json" where
  "to_ssh_key data = data"

definition to_location :: "json \<Rightarrow> exn + node_location" where
  "to_location v =
     then_do (py_get v ''id'' JNull) (\<lambda>i.
     then_do (py_get v ''name'' JNull) (\<lambda>n.
       Inr \<lparr>loc_id = i, loc_name = n, loc_country = ''US''\<rparr>))"

definition to_image :: "json \<Rightarrow> exn + node_image" where
  "to_image v =
     then_do (py_get v ''architecture'' JNull) (\<lambda>architecture.
     then_do (py_get v ''disks'' JNull) (\<lambda>disks.
     then_do (py_get v ''billable_type'' JNull) (\<lambda>billable_type.
     then_do (py_get v ''pcpus'' JNull) (\<lambda>pcpus.
     then_do (py_get v ''cores'' JNull) (\<lambda>cores.
     then_do (py_get v ''uri'' JNull) (\<lambda>uri.
     then_do (py_get v ''storage'' JNull) (\<lambda>storage.
     then_do (py_get v ''id'' JNull) (\<lambda>i.
     then_do (py_get v ''friendly_name'' JNull) (\<lambda>n.
       Inr \<lparr>image_id = i, image_name = n,
            image_extra = \<lparr>im_architecture = architecture, im_disks = disks,
              im_billable_type = billable_type, im_pcpus = pcpus, im_cores = cores,
              im_uri = uri, im_storage = storage\<rparr>\<rparr>)))))))))"

text \<open>
  The price of a size comes from \<open>self._get_size_price(size_id=str(id))\<close>, a lookup in
  the pricing catalogue of the base driver: the parameter \<open>get_size_price\<close>, applied to
  the id before \<open>str\<close>. It may raise. Prices are linearly ordered.
\<close>

definition to_size :: "(json \<Rightarrow> exn + 'p) \<Rightarrow> json \<Rightarrow> exn + 'p node_size" where
  "to_size get_size_price v =
     then_do (py_get v ''id'' JNull) (\<lambda>i.
     then_do (py_get v ''friendly_name'' JNull) (\<lambda>n.
     then_do (py_get v ''ram'' JNull) (\<lambda>ram.
     then_do (py_get v ''storage'' JNull) (\<lambda>storage.
     then_do (py_get v ''id'' JNull) (\<lambda>i'.
     then_do (get_size_price i') (\<lambda>p.
       Inr \<lparr>size_id = i, size_name = n, size_ram = ram, size_disk = storage,
            size_bandwidth = JNull, size_price = p\<rparr>))))))"

subsection \<open>Listing operations\<close>

text \<open>What every listing starts with: \<open>for value in result.get('data', [])\<close>.\<close>

definition data_values :: "json \<Rightarrow> exn + json list" where
  "data_values result = then_do (py_get result ''data'' (JList [])) py_iter"

definition list_locations ::
  "'w transport \<Rightarrow> 'w connection \<Rightarrow> (exn + node_location list) \<times> 'w connection" where
  "list_locations tr c =
     (case connection_request tr (GET ''/datacenter/'') c of
        (r, c') \<Rightarrow> (then_do r (\<lambda>result. then_do (data_values result) (map_exn to_location)), c'))"

definition list_images ::
  "'w transport \<Rightarrow> 'w connection \<Rightarrow> (exn + node_image list) \<times> 'w connection" where
  "list_images tr c =
     (case connection_request tr (GET ''/image/server/'') c of
        (r, c') \<Rightarrow> (then_do r (\<lambda>result. then_do (data_values result) (map_exn to_image)), c'))"

text \<open>\<open>sorted\<close> is Python's stable sort; \<open>sort_key\<close> is a stable insertion sort.\<close>

definition sizes_unsorted ::
  "(json \<Rightarrow> exn + 'p) \<Rightarrow> json \<Rightarrow> exn + 'p node_size list" where
  "sizes_unsorted get_size_price result =
     then_do (data_values result) (map_exn (to_size get_size_price))"

definition list_sizes ::
  "(json \<Rightarrow> exn + 'p::linorder) \<Rightarrow> 'w transport \<Rightarrow> 'w connection
     \<Rightarrow> (exn + 'p node_size list) \<times> 'w connection" where
  "list_sizes get_size_price tr c =
     (case connection_request tr (GET ''/server/type/cloud/'') c of
        (r, c') \<Rightarrow>
          (then_do r (\<lambda>result.
             then_do (sizes_unsorted get_size_price result) (\<lambda>sizes.
               Inr (sort_key size_price sizes))), c'))"

definition list_nodes ::
  "'w transport \<Rightarrow> 'w connection \<Rightarrow> (exn + node list) \<times> 'w connection" where
  "list_nodes tr c =
     (case connection_request tr (GET ''/server/cloud/'') c of
        (r, c') \<Rightarrow> (then_do r (\<lambda>result. then_do (data_values result) (map_exn to_node)), c'))"

text \<open>
  \<open>key_group\<close> is an integer or \<open>None\<close>; the filter runs where it is neither \<open>None\<close>
  nor 0.
\<close>

definition key_in_group :: "int \<Rightarrow> json \<Rightarrow> exn + bool" where
  "key_in_group g key =
     then_do (py_get key ''key_group'' (JStr '''')) (\<lambda>v. Inr (py_eq_int v g))"

fun filter_exn :: "('a \<Rightarrow> exn + bool) \<Rightarrow> 'a list \<Rightarrow> exn + 'a list" where
  "filter_exn f [] = Inr []"
| "filter_exn f (x # xs) =
     (case f x of
        Inl e \<Rightarrow> Inl e
      | Inr b \<Rightarrow>
          (case filter_exn f xs of
             Inl e \<Rightarrow> Inl e
           | Inr ys \<Rightarrow> Inr (if b then x # ys else ys)))"

definition list_all_keys ::
  "'w transport \<Rightarrow> int option \<Rightarrow> 'w connection \<Rightarrow> (exn + json list) \<times> 'w connection" where
  "list_all_keys tr key_group c =
     (case connection_request tr (GET ''/key/'') c of
        (r, c') \<Rightarrow>
          (then_do r (\<lambda>result.
             then_do (data_values result) (\<lambda>vs.
               let keys = map to_ssh_key vs in
               (case key_group of
                  None \<Rightarrow> Inr keys
                | Some g \<Rightarrow> if g \<noteq> 0 then filter_exn (key_in_group g) keys else Inr keys))), c'))"

subsection \<open>Key deletion\<close>

text \<open>The key id is given as the text that \<open>%s\<close> puts into the path.\<close>

definition response_valid :: "json \<Rightarrow> exn + bool" where
  "response_valid result =
     then_do (py_get result ''response'' JNull) (\<lambda>v. Inr (py_in v VALID_RESPONSE_CODES))"

definition delete_ssh_key ::
  "'w transport \<Rightarrow> string \<Rightarrow> 'w connection \<Rightarrow> (exn + bool) \<times> 'w connection" where
  "delete_ssh_key tr key_id c =
     (case connection_request tr (DELETE (''/key/sshrsa/'' @ key_id @ ''/'')) c of
        (r, c') \<Rightarrow> (then_do r response_valid, c'))"

definition delete_password_key ::
  "'w transport \<Rightarrow> string \<Rightarrow> 'w connection \<Rightarrow> (exn + bool) \<times> 'w connection" where
  "delete_password_key tr key_id c =
     (case connection_request tr (DELETE (''/key/password/'' @ key_id @ ''/'')) c of
        (r, c') \<Rightarrow> (then_do r response_valid, c'))"

subsection \<open>Creating a node\<close>

text \<open>
  The keyword arguments of \<open>create_node\<close>. The name is a character string, the size
  and the image are entities as the listings return them; for these three \<open>None\<close> is
  a keyword that is absent or given as \<open>None\<close>. For the hostname and the two keys
  \<open>None\<close> is a keyword that is absent, and one given as \<open>None\<close> is \<open>Some JNull\<close>.
\<close>

record 'p create_kwargs =
  kw_name :: "string option"
  kw_hostname :: "json option"
  kw_size :: "'p node_size option"
  kw_image :: "node_image option"
  kw_server_key :: "json option"
  kw_console_key :: "json option"

text \<open>
  The \<open>try\<close> block that reads the arguments: it gives the name and the form data of the
  create call, or the exception that wraps the one raised inside.
\<close>

definition create_node_data :: "'p create_kwargs \<Rightarrow> exn + string \<times> (string \<times> json) list" where
  "create_node_data kw =
     (case
        (case kw_name kw of
           None \<Rightarrow> Inl (Exception ''Name cannot be blank'')
         | Some name \<Rightarrow>
             if name = [] then Inl (Exception ''Name cannot be blank'')
             else
               (let hostname = (case kw_hostname kw of None \<Rightarrow> JStr name | Some h \<Rightarrow> h) in
                case kw_size kw of
                  None \<Rightarrow> Inl (Exception ''Service type cannot be blank'')
                | Some service_type \<Rightarrow>
                    (case kw_image kw of
                       None \<Rightarrow> Inl (Exception ''Image cannot be blank'')
                     | Some img \<Rightarrow>
                         Inr (name,
                           [(''name'', JStr name),
                            (''hostname'', hostname),
                            (''service_type'', size_id service_type),
                            (''image'', image_id img),
                            (''server_key'',
                               (case kw_server_key kw of None \<Rightarrow> JStr '''' | Some k \<Rightarrow> k)),
                            (''console_key'',
                               (case kw_console_key kw of None \<Rightarrow> JStr '''' | Some k \<Rightarrow> k))]))))
      of
        Inl e \<Rightarrow> Inl (Exception_fmt ''Error on create node: '' e)
      | Inr x \<Rightarrow> Inr x)"

definition LOGIN_ATTEMPTS :: nat where
  "LOGIN_ATTEMPTS = 20"

definition placeholder :: "string \<Rightarrow> node" where
  "placeholder name =
     \<lparr>node_id = JStr '''', node_name = JStr name, node_state = Str '''',
      public_ips = JStr '''', private_ips = JStr '''', node_extra = None\<rparr>"

text \<open>
  The \<open>while LOGIN_ATTEMPTS > 0\<close> loop, on the attempts that are left. The pause
  between two attempts is not modelled; the world may change at every call.
\<close>

fun poll ::
  "'w transport \<Rightarrow> string \<Rightarrow> nat \<Rightarrow> 'w connection \<Rightarrow> (exn + node) \<times> 'w connection" where
  "poll tr name 0 c = (Inr (placeholder name), c)"
| "poll tr name (Suc attempts) c =
     (case list_nodes tr c of
        (Inl e, c') \<Rightarrow> (Inl e, c')
      | (Inr nodes, c') \<Rightarrow>
          (case filter (\<lambda>c_node. node_name c_node = JStr name) nodes of
             [] \<Rightarrow> poll tr name attempts c'
           | created # _ \<Rightarrow> (Inr created, c')))"

definition create_node ::
  "'w transport \<Rightarrow> 'p create_kwargs \<Rightarrow> 'w connection \<Rightarrow> (exn + node) \<times> 'w connection" where
  "create_node tr kw c =
     (case create_node_data kw of
        Inl e \<Rightarrow> (Inl e, c)
      | Inr (name, data) \<Rightarrow>
          (case connection_request tr (POST ''/server/cloud/'' data) c of
             (Inl e, c') \<Rightarrow> (Inl (Exception_fmt ''Failed to create node '' e), c')
           | (Inr node, c') \<Rightarrow> poll tr name LOGIN_ATTEMPTS c'))"

text \<open>The connection before the \<open>i\<close>-th next listing call of a run of listings.\<close>

definition before_listing :: "'w transport \<Rightarrow> 'w connection \<Rightarrow> nat \<Rightarrow> 'w connection" where
  "before_listing tr c i = ((\<lambda>c. snd (list_nodes tr c)) ^^ i) c"

subsection \<open>Transports for concrete runs\<close>

text \<open>
  \<open>scripted\<close> answers from a list of prepared responses, one per request, and fails
  once the list is used up; \<open>answering r\<close> gives the same response to every request.
\<close>

definition scripted :: "http_response list transport" where
  "scripted w rq =
     (case w of [] \<Rightarrow> (Inl (Exception ''connection closed''), []) | r # rs \<Rightarrow> (Inr r, rs))"

definition answering :: "http_response \<Rightarrow> unit transport" where
  "answering r w rq = (Inr r, w)"

definition ok :: "json \<Rightarrow> http_response" where
  "ok b = \<lparr>status = 200, body = b\<rparr>"

definition fresh :: "'w \<Rightarrow> 'w connection" where
  "fresh w = \<lparr>world = w, calls = []\<rparr>"

text \<open>
  A run of the creation workflow: the instance "staging-1" with size 27 and image 49.
  \<open>no_nodes\<close> is a listing without instances, \<open>other_nodes\<close> one with an unrelated
  instance, \<open>staging_nodes\<close> one in which the new instance has appeared, followed by a
  second record of the same name.
\<close>

definition staging_kwargs :: "int create_kwargs" where
  "staging_kwargs =
     \<lparr>kw_name = Some ''staging-1'', kw_hostname = None,
      kw_size = Some \<lparr>size_id = JInt 27, size_name = JStr ''CS025'', size_ram = JInt 256,
        size_disk = JInt 15, size_bandwidth = JNull, size_price = 0\<rparr>,
      kw_image = Some \<lparr>image_id = JInt 49, image_name = JStr ''Ubuntu Server'',
        image_extra = \<lparr>im_architecture = JNull, im_disks = JNull, im_billable_type = JNull,
          im_pcpus = JNull, im_cores = JNull, im_uri = JNull, im_storage = JNull\<rparr>\<rparr>,
      kw_server_key = None, kw_console_key = None\<rparr>"

definition staging_data :: "(string \<times> json) list" where
  "staging_data =
     [(''name'', JStr ''staging-1''), (''hostname'', JStr ''staging-1''),
      (''service_type'', JInt 27), (''image'', JInt 49),
      (''server_key'', JStr ''''), (''console_key'', JStr '''')]"

definition accepted :: http_response where
  "accepted = ok (JObj [(''response'', JInt 202)])"


definition other_nodes :: http_response where
  "other_nodes = ok (JObj [(''data'', JList [JObj [(''name'', JStr ''db-1''), (''id'', JStr ''7'')]])])"

definition staging_nodes :: http_response where
  "staging_nodes =
     ok (JObj [(''data'', JList
       [JObj [(''name'', JStr ''db-1''), (''id'', JStr ''7'')],
        JObj [(''name'', JStr ''staging-1''), (''id'', JStr ''999''),
              (''ipaddresses'', JStr ''198.51.100.7, 10.0.0.5''), (''power_status'', JStr ''on'')],
        JObj [(''name'', JStr ''staging-1''), (''id'', JStr ''1000'')]])])"

text \<open>A size catalogue of three sizes, and the prices of their ids.\<close>

definition three_sizes :: http_response where
  "three_sizes =
     ok (JObj [(''data'', JList
       [JObj [(''id'', JInt 1), (''friendly_name'', JStr ''large'')],
        JObj [(''id'', JInt 2), (''friendly_name'', JStr ''small'')],
        JObj [(''id'', JInt 3), (''friendly_name'', JStr ''tiny'')]])])"

definition three_prices :: "json \<Rightarrow> exn + int" where
  "three_prices v = (if v = JInt 1 then Inr 5 else if v = JInt 2 \<or> v = JInt 3 then Inr 3 else Inl KeyError)"

text \<open>The nodes that \<open>to_node\<close> makes of the records of these listings.\<close>

definition db_node :: node where
  "db_node = \<lparr>node_id = JStr ''7'', node_name = JStr ''db-1'', node_state = Str ''4'',
      public_ips = JList [], private_ips = JList [],
      node_extra = Some \<lparr>ex_zone_data = JNull, ex_zone = JNull, ex_image = JNull,
        ex_create_time = JNull, ex_network_ports = JNull, ex_is_console_enabled = JNull,
        ex_service_type = JNull, ex_hostname = JNull\<rparr>\<rparr>"

definition staging_node :: node where
  "staging_node = \<lparr>node_id = JStr ''999'', node_name = JStr ''staging-1'',
      node_state = State RUNNING,
      public_ips = JList [JStr ''198.51.100.7''], private_ips = JList [JStr ''10.0.0.5''],
      node_extra = Some \<lparr>ex_zone_data = JNull, ex_zone = JNull, ex_image = JNull,
        ex_create_time = JNull, ex_network_ports = JNull, ex_is_console_enabled = JNull,
        ex_service_type = JNull, ex_hostname = JNull\<rparr>\<rparr>"

definition late_node :: node where
  "late_node = \<lparr>node_id = JStr ''1000'', node_name = JStr ''staging-1'', node_state = Str ''4'',
      public_ips = JList [], private_ips = JList [],
      node_extra = Some \<lparr>ex_zone_data = JNull, ex_zone = JNull, ex_image = JNull,
        ex_create_time = JNull, ex_network_ports = JNull, ex_is_console_enabled = JNull,
        ex_service_type = JNull, ex_hostname = JNull\<rparr>\<rparr>"

definition accepted_200 :: http_response where
  "accepted_200 = ok (JObj [(''response'', JInt 200)])"

text \<open>A size of the catalogue above, as \<open>to_size\<close> makes it.\<close>

definition size_of :: "int \<Rightarrow> string \<Rightarrow> int \<Rightarrow> int node_size" where
  "size_of i n p = \<lparr>size_id = JInt i, size_name = JStr n, size_ram = JNull, size_disk = JNull,
      size_bandwidth = JNull, size_price = p\<rparr>"

text \<open>
  A comma-separated address string, as the spec describes the raw addresses: the tokens
  joined by commas (Python's \<open>','.join(tokens)\<close>). It is not part of the driver; the
  classification of the addresses is stated on it.
\<close>

fun comma_join :: "string list \<Rightarrow> string" where
  "comma_join [] = []"
| "comma_join [t] = t"
| "comma_join (t # u # ts) = t @ CHR '','' # comma_join (u # ts)"



section \<open>Properties\<close>

subsection \<open>Auxiliary facts\<close>

lemma then_do_simps [simp]:
  "then_do (Inl e) f = Inl e"
  "then_do (Inr x) f = f x"
  by (simp_all add: then_do_def)

lemma then_do_Inr_iff:
  "then_do r f = Inr y \<longleftrightarrow> (\<exists>x. r = Inr x \<and> f x = Inr y)"
  by (cases r) simp_all

lemma success_iff: "success r = (status r \<in> {200, 201, 202, 204})"
  by (auto simp: success_def VALID_RESPONSE_CODES_def)

lemma py_in_valid:
  "py_in v VALID_RESPONSE_CODES = (\<exists>code \<in> {200, 201, 202, 204}. v = JInt code)"
  by (cases v) (auto simp: py_in_def VALID_RESPONSE_CODES_def)

lemma response_valid_Inr:
  "response_valid result = Inr b \<longleftrightarrow>
     (\<exists>d. result = JObj d
        \<and> b = (\<exists>code \<in> {200, 201, 202, 204}. map_of d ''response'' = Some (JInt code)))"
  by (cases result) (auto simp: response_valid_def py_in_valid dict_get_def split: option.splits)

lemma connection_request_scripted:
  "connection_request scripted rq \<lparr>world = r # rs, calls = cs\<rparr>
     = (NephoscaleResponse r, \<lparr>world = rs, calls = cs @ [rq]\<rparr>)"
  by (simp add: connection_request_def scripted_def)

lemma connection_request_answering:
  "connection_request (answering r) rq c = (NephoscaleResponse r, \<lparr>world = (), calls = calls c @ [rq]\<rparr>)"
  by (simp add: connection_request_def answering_def)

lemma NephoscaleResponse_ok: "NephoscaleResponse (ok b) = Inr b"
  by (simp add: NephoscaleResponse_def ok_def success_iff)

lemma fst_split: "fst (case p of (r, c') \<Rightarrow> (f r, c')) = f (fst p)"
  by (cases p) simp

lemma snd_split: "snd (case p of (r, c') \<Rightarrow> (f r, c')) = snd p"
  by (cases p) simp

lemma snd_list_nodes:
  "snd (list_nodes tr c) = snd (connection_request tr (GET ''/server/cloud/'') c)"
  by (simp add: list_nodes_def snd_split)

lemma calls_connection_request:
  "calls (snd (connection_request tr rq c)) = calls c @ [rq]"
  by (simp add: connection_request_def split: prod.splits)

lemma calls_list_nodes: "calls (snd (list_nodes tr c)) = calls c @ [GET ''/server/cloud/'']"
  by (simp add: snd_list_nodes calls_connection_request)

lemma before_listing_0: "before_listing tr c 0 = c"
  by (simp add: before_listing_def)

lemma before_listing_Suc:
  "before_listing tr c (Suc i) = before_listing tr (snd (list_nodes tr c)) i"
  by (simp only: before_listing_def funpow_Suc_right o_apply)

lemma calls_before_listing:
  "calls (before_listing tr c n) = calls c @ replicate n (GET ''/server/cloud/'')"
proof (induction n arbitrary: c)
  case 0
  show ?case by (simp add: before_listing_0)
next
  case (Suc n)
  show ?case
    by (simp add: before_listing_Suc Suc.IH calls_list_nodes replicate_app_Cons_same)
qed

lemma poll_Suc_no_match:
  assumes "fst (list_nodes tr c) = Inr nodes" "\<forall>x \<in> set nodes. node_name x \<noteq> JStr name"
  shows "poll tr name (Suc n) c = poll tr name n (snd (list_nodes tr c))"
proof -
  have "filter (\<lambda>x. node_name x = JStr name) nodes = []"
    using assms(2) by (simp add: filter_empty_conv)
  then show ?thesis
    using assms(1) by (cases "list_nodes tr c") simp
qed

lemma find_filter:
  "List.find P xs = Some m \<Longrightarrow> \<exists>rest. filter P xs = m # rest"
  by (induction xs) (auto split: if_splits)

lemma poll_Suc_match:
  assumes "fst (list_nodes tr c) = Inr nodes"
    and "List.find (\<lambda>x. node_name x = JStr name) nodes = Some m"
  shows "poll tr name (Suc n) c = (Inr m, snd (list_nodes tr c))"
proof -
  obtain rest where "filter (\<lambda>x. node_name x = JStr name) nodes = m # rest"
    using find_filter [OF assms(2)] by blast
  then show ?thesis
    using assms(1) by (cases "list_nodes tr c") simp
qed


lemma poll_found:
  assumes "j < n"
    and "\<forall>i<j. \<exists>nodes. fst (list_nodes tr (before_listing tr c i)) = Inr nodes
              \<and> (\<forall>x \<in> set nodes. node_name x \<noteq> JStr name)"
    and "fst (list_nodes tr (before_listing tr c j)) = Inr nodes"
    and "List.find (\<lambda>x. node_name x = JStr name) nodes = Some m"
  shows "poll tr name n c = (Inr m, before_listing tr c (Suc j))"
  using assms
proof (induction j arbitrary: c n)
  case 0
  then obtain n' where n: "n = Suc n'" by (cases n) auto
  from 0 have "fst (list_nodes tr c) = Inr nodes" by (simp add: before_listing_0)
  from poll_Suc_match [OF this "0.prems"(4)] show ?case
    by (simp add: n before_listing_Suc before_listing_0)
next
  case (Suc j)
  then obtain n' where n: "n = Suc n'" and j: "j < n'" by (cases n) auto
  from Suc.prems(2) have "\<exists>nodes. fst (list_nodes tr (before_listing tr c 0)) = Inr nodes
      \<and> (\<forall>x \<in> set nodes. node_name x \<noteq> JStr name)"
    by blast
  then obtain ns where first: "fst (list_nodes tr c) = Inr ns"
      "\<forall>x \<in> set ns. node_name x \<noteq> JStr name"
    by (auto simp: before_listing_0)
  have rest: "\<forall>i<j. \<exists>nodes. fst (list_nodes tr (before_listing tr (snd (list_nodes tr c)) i)) = Inr nodes
      \<and> (\<forall>x \<in> set nodes. node_name x \<noteq> JStr name)"
  proof (intro allI impI)
    fix i assume "i < j"
    then have "Suc i < Suc j" by simp
    with Suc.prems(2) show "\<exists>nodes. fst (list_nodes tr (before_listing tr (snd (list_nodes tr c)) i)) = Inr nodes
      \<and> (\<forall>x \<in> set nodes. node_name x \<noteq> JStr name)"
      unfolding before_listing_Suc [symmetric] by blast
  qed
  have at: "fst (list_nodes tr (before_listing tr (snd (list_nodes tr c)) j)) = Inr nodes"
    using Suc.prems(3) by (simp add: before_listing_Suc)
  have "poll tr name n' (snd (list_nodes tr c))
      = (Inr m, before_listing tr (snd (list_nodes tr c)) (Suc j))"
    by (rule Suc.IH [OF j rest at Suc.prems(4)])
  then show ?case
    by (simp only: n poll_Suc_no_match [OF first] before_listing_Suc [symmetric])
qed

lemma data_values_absent: "map_of d ''data'' = None \<Longrightarrow> data_values (JObj d) = Inr []"
  by (simp add: data_values_def dict_get_def)

lemma fst_list_nodes:
  "fst (list_nodes tr c) =
     then_do (fst (connection_request tr (GET ''/server/cloud/'') c))
       (\<lambda>result. then_do (data_values result) (map_exn to_node))"
  by (simp add: list_nodes_def fst_split)

lemma map_exn_Inr: "map_exn f xs = Inr ys \<Longrightarrow> map f xs = map Inr ys"
  by (induction xs arbitrary: ys) (auto split: sum.splits)

subsection \<open>The entity mapper\<close>

lemma split_not_Nil: "split sep s \<noteq> []"
  by (induction s) (auto split: list.splits)

lemma split_tokens: "t \<in> set (split sep s) \<Longrightarrow> sep \<notin> set t"
  by (induction s arbitrary: t) (auto split: list.splits if_splits)

lemma length_split: "length (split sep s) = Suc (count_list s sep)"
  by (induction s) (auto split: list.splits simp: split_not_Nil)

lemma classify_ips_filter:
  "classify_ips toks pub priv =
     (pub @ filter (\<lambda>t. \<not> (startswith t ''10.'' \<or> startswith t ''192.168''))
              (map replace_spaces toks),
      priv @ filter (\<lambda>t. startswith t ''10.'' \<or> startswith t ''192.168'')
               (map replace_spaces toks))"
  by (induction toks arbitrary: pub priv) (simp_all add: Let_def)

lemma NODE_STATE_MAP_get_JStr:
  "NODE_STATE_MAP_get (JStr s) (Str ''4'') =
     Inr (if s = ''on'' then State RUNNING
          else if s = ''off'' \<or> s = ''unknown'' then State UNKNOWN
          else Str ''4'')"
  by (simp add: NODE_STATE_MAP_def)

lemma NODE_STATE_MAP_get_RUNNING:
  "NODE_STATE_MAP_get v (Str ''4'') = Inr (State RUNNING) \<longleftrightarrow> v = JStr ''on''"
  by (cases v) (auto simp: NODE_STATE_MAP_def)

lemma to_node_JObj:
  "to_node (JObj d) =
     then_do (NODE_STATE_MAP_get (dict_get d ''power_status'' JNull) (Str ''4'')) (\<lambda>state.
     then_do (to_ips (dict_get d ''ipaddresses'' (JStr ''''))) (\<lambda>ips.
     then_do (py_get (dict_get d ''zone'' (JObj [])) ''name'' JNull) (\<lambda>zone.
     then_do (py_get (dict_get d ''image'' (JObj [])) ''friendly_name'' JNull) (\<lambda>image.
     then_do (py_get (dict_get d ''service_type'' (JObj [])) ''friendly_name'' JNull) (\<lambda>service_type.
       Inr \<lparr>node_id = dict_get d ''id'' JNull, node_name = dict_get d ''name'' JNull,
            node_state = state,
            public_ips = JList (map JStr (fst ips)),
            private_ips = JList (map JStr (snd ips)),
            node_extra = Some \<lparr>ex_zone_data = dict_get d ''zone'' JNull, ex_zone = zone,
              ex_image = image,
              ex_create_time = dict_get d ''create_time'' JNull,
              ex_network_ports = dict_get d ''network_ports'' JNull,
              ex_is_console_enabled = dict_get d ''is_console_enabled'' JNull,
              ex_service_type = service_type,
              ex_hostname = dict_get d ''hostname'' JNull\<rparr>\<rparr>)))))"
  by (simp add: to_node_def)

lemma then_do_Inl_iff:
  "then_do r f = Inl e \<longleftrightarrow> r = Inl e \<or> (\<exists>x. r = Inr x \<and> f x = Inl e)"
  by (cases r) simp_all

subsection \<open>The concrete runs\<close>

lemma to_node_db:
  "to_node (JObj [(''name'', JStr ''db-1''), (''id'', JStr ''7'')]) = Inr db_node"
  by (simp add: to_node_def dict_get_def to_ips_def db_node_def)

lemma to_node_staging:
  "to_node (JObj [(''name'', JStr ''staging-1''), (''id'', JStr ''999''),
      (''ipaddresses'', JStr ''198.51.100.7, 10.0.0.5''), (''power_status'', JStr ''on'')])
     = Inr staging_node"
  by (simp add: to_node_def dict_get_def to_ips_def NODE_STATE_MAP_def replace_spaces_def
      startswith_def staging_node_def)

lemma to_node_late:
  "to_node (JObj [(''name'', JStr ''staging-1''), (''id'', JStr ''1000'')]) = Inr late_node"
  by (simp add: to_node_def dict_get_def to_ips_def late_node_def)

lemma list_nodes_scripted:
  "list_nodes scripted \<lparr>world = r # rs, calls = cs\<rparr>
     = (then_do (NephoscaleResponse r) (\<lambda>result. then_do (data_values result) (map_exn to_node)),
        \<lparr>world = rs, calls = cs @ [GET ''/server/cloud/'']\<rparr>)"
  by (simp add: list_nodes_def connection_request_scripted)

lemma list_nodes_other:
  "list_nodes scripted \<lparr>world = other_nodes # rs, calls = cs\<rparr>
     = (Inr [db_node], \<lparr>world = rs, calls = cs @ [GET ''/server/cloud/'']\<rparr>)"
  by (simp add: list_nodes_scripted other_nodes_def NephoscaleResponse_ok data_values_def dict_get_def
      to_node_db)

lemma list_nodes_staging:
  "list_nodes scripted \<lparr>world = staging_nodes # rs, calls = cs\<rparr>
     = (Inr [db_node, staging_node, late_node], \<lparr>world = rs, calls = cs @ [GET ''/server/cloud/'']\<rparr>)"
  by (simp add: list_nodes_scripted staging_nodes_def NephoscaleResponse_ok data_values_def dict_get_def
      to_node_db to_node_staging to_node_late)


lemma staging_kwargs_data: "create_node_data staging_kwargs = Inr (''staging-1'', staging_data)"
  by (simp add: create_node_data_def staging_kwargs_def staging_data_def)

lemma list_sizes_three:
  "list_sizes three_prices scripted (fresh [three_sizes])
     = (Inr [size_of 2 ''small'' 3, size_of 3 ''tiny'' 3, size_of 1 ''large'' 5],
        \<lparr>world = [], calls = [GET ''/server/type/cloud/'']\<rparr>)"
  by (simp add: list_sizes_def fresh_def connection_request_scripted three_sizes_def NephoscaleResponse_ok
      sizes_unsorted_def data_values_def dict_get_def to_size_def three_prices_def size_of_def)

subsection \<open>A listing call that raises\<close>


subsection \<open>Comma-separated strings and failing listings\<close>

lemma split_no_sep: "sep \<notin> set t \<Longrightarrow> split sep t = [t]"
  by (induction t) auto

lemma split_append_sep:
  "sep \<notin> set t \<Longrightarrow> split sep (t @ sep # rest) = t # split sep rest"
  by (induction t) auto

lemma split_comma_join:
  "ts \<noteq> [] \<Longrightarrow> \<forall>t \<in> set ts. CHR '','' \<notin> set t \<Longrightarrow> split CHR '','' (comma_join ts) = ts"
  by (induction ts rule: comma_join.induct) (simp_all add: split_no_sep split_append_sep)

lemma comma_join_split: "comma_join (split CHR '','' s) = s"
proof (induction s)
  case Nil
  show ?case by simp
next
  case (Cons c s)
  obtain t ts where ts: "split CHR '','' s = t # ts"
    using split_not_Nil [of "CHR '',''" s] by (cases "split CHR '','' s") auto
  show ?case
    using Cons ts by (cases ts) auto
qed

lemma startswith_prefix: "startswith s p = prefix p s"
  by (auto simp: startswith_def prefix_def) (metis append_eq_conv_conj)

lemma replace_spaces_filter: "replace_spaces = filter (\<lambda>c. c \<noteq> CHR '' '')"
  by (rule ext) (simp add: replace_spaces_def)




subsection \<open>Response normalizer\<close>

text \<open>
  C7. The normalizer counts a transport result as a success exactly when its status is
  200, 201, 202 or 204. With status 401 \<open>parse_error\<close> raises \<open>InvalidCredsError\<close>
  (the spec's AuthenticationError), with status 404 it raises the exception "The
  resource you are looking for is not found." (the spec's NotFoundError), and both
  escape from the response. With status 200, and with every other status of the
  whitelist, the response's object is the parsed body as it came, in particular a body
  \<open>{"data": [...]}\<close>.
\<close>

theorem normalizer_classification:
  "success \<lparr>status = s, body = b\<rparr> = (s \<in> {200, 201, 202, 204})
   \<and> parse_error \<lparr>status = 401, body = b\<rparr> = Inl (InvalidCredsError ''Authorization Failed'')
   \<and> NephoscaleResponse \<lparr>status = 401, body = b\<rparr> = Inl (InvalidCredsError ''Authorization Failed'')
   \<and> parse_error \<lparr>status = 404, body = b\<rparr>
        = Inl (Exception ''The resource you are looking for is not found.'')
   \<and> NephoscaleResponse \<lparr>status = 404, body = b\<rparr>
        = Inl (Exception ''The resource you are looking for is not found.'')
   \<and> NephoscaleResponse \<lparr>status = 200, body = JObj [(''data'', JList xs)]\<rparr>
        = Inr (JObj [(''data'', JList xs)])
   \<and> (s \<in> {200, 201, 202, 204} \<longrightarrow> NephoscaleResponse \<lparr>status = s, body = b\<rparr> = Inr b)"
  by (simp add: success_iff parse_error_def NephoscaleResponse_def)

theorem normalizer_classification_witness:
  "(202::int) \<in> {200, 201, 202, 204}
   \<and> NephoscaleResponse \<lparr>status = 202, body = JObj [(''data'', JList [])]\<rparr>
        = Inr (JObj [(''data'', JList [])])
   \<and> \<not> success \<lparr>status = 500, body = JNull\<rparr>"
  using normalizer_classification [of 202 "JObj [(''data'', JList [])]" "[]"]
    normalizer_classification [of 500 JNull "[]"]
  by simp

subsection \<open>Validation of the create arguments\<close>

text \<open>
  C3. When the name, the size or the image is absent (or the name is the empty
  string), \<open>create_node\<close> raises the
  exception "Error on create node: ..." around the message of the missing argument (the
  spec's ValidationError) and the connection is returned as it was: no request has been
  sent, neither the create call nor a listing.
\<close>

theorem create_node_validation:
  assumes "kw_name kw = None \<or> kw_name kw = Some [] \<or> kw_size kw = None \<or> kw_image kw = None"
  shows "create_node tr kw c =
           (Inl (Exception_fmt ''Error on create node: ''
              (Exception
                (if kw_name kw = None \<or> kw_name kw = Some [] then ''Name cannot be blank''
                 else if kw_size kw = None then ''Service type cannot be blank''
                 else ''Image cannot be blank''))), c)
       \<and> calls (snd (create_node tr kw c)) = calls c"
  using assms
  by (auto simp: create_node_def create_node_data_def Let_def split: option.splits)

theorem create_node_validation_witness:
  "kw_size \<lparr>kw_name = Some ''web'', kw_hostname = None, kw_size = (None :: int node_size option),
      kw_image = None, kw_server_key = None, kw_console_key = None\<rparr> = None
   \<and> create_node scripted
        \<lparr>kw_name = Some ''web'', kw_hostname = None, kw_size = (None :: int node_size option),
         kw_image = None, kw_server_key = None, kw_console_key = None\<rparr>
        (fresh [])
      = (Inl (Exception_fmt ''Error on create node: '' (Exception ''Service type cannot be blank'')),
         fresh [])
   \<and> calls (snd (create_node scripted
        \<lparr>kw_name = Some ''web'', kw_hostname = None, kw_size = (None :: int node_size option),
         kw_image = None, kw_server_key = None, kw_console_key = None\<rparr>
        (fresh []))) = []"
  using create_node_validation [of
      "\<lparr>kw_name = Some ''web'', kw_hostname = None, kw_size = (None :: int node_size option),
        kw_image = None, kw_server_key = None, kw_console_key = None\<rparr>"
      scripted "fresh []"]
  by (simp add: fresh_def)

subsection \<open>Key deletion\<close>

text \<open>
  C8. When \<open>delete_ssh_key\<close> or \<open>delete_password_key\<close> returns, the request gave a
  dictionary and the value returned is a boolean: true exactly when the \<open>response\<close>
  entry of that dictionary is one of the codes 200, 201, 202, 204, which is the
  normalizer's \<open>success\<close> on that code, and false otherwise, also when there is no
  \<open>response\<close> entry.
\<close>

theorem delete_key_result:
  "(delete_ssh_key tr key_id c = (Inr b, c') \<longrightarrow>
      (\<exists>d. fst (connection_request tr (DELETE (''/key/sshrsa/'' @ key_id @ ''/'')) c) = Inr (JObj d)
         \<and> b = (\<exists>code \<in> {200, 201, 202, 204}. map_of d ''response'' = Some (JInt code))
         \<and> b = (\<exists>code. map_of d ''response'' = Some (JInt code)
                   \<and> success \<lparr>status = code, body = JObj d\<rparr>)
         \<and> (map_of d ''response'' = None \<longrightarrow> \<not> b)))
   \<and> (delete_password_key tr key_id c = (Inr b, c') \<longrightarrow>
      (\<exists>d. fst (connection_request tr (DELETE (''/key/password/'' @ key_id @ ''/'')) c) = Inr (JObj d)
         \<and> b = (\<exists>code \<in> {200, 201, 202, 204}. map_of d ''response'' = Some (JInt code))
         \<and> b = (\<exists>code. map_of d ''response'' = Some (JInt code)
                   \<and> success \<lparr>status = code, body = JObj d\<rparr>)
         \<and> (map_of d ''response'' = None \<longrightarrow> \<not> b)))"
proof -
  have key: "\<exists>d. r = Inr (JObj d)
         \<and> b = (\<exists>code \<in> {200, 201, 202, 204}. map_of d ''response'' = Some (JInt code))
         \<and> b = (\<exists>code. map_of d ''response'' = Some (JInt code)
                   \<and> success \<lparr>status = code, body = JObj d\<rparr>)
         \<and> (map_of d ''response'' = None \<longrightarrow> \<not> b)"
    if "then_do r response_valid = Inr b" for r
  proof -
    from that obtain result where r: "r = Inr result" and v: "response_valid result = Inr b"
      by (auto simp: then_do_Inr_iff)
    from v obtain d where d: "result = JObj d"
      and b: "b = (\<exists>code \<in> {200, 201, 202, 204}. map_of d ''response'' = Some (JInt code))"
      by (auto simp: response_valid_Inr)
    show ?thesis
      using r d b by (auto simp: success_iff)
  qed
  have ssh: "delete_ssh_key tr key_id c = (Inr b, c') \<Longrightarrow>
      then_do (fst (connection_request tr (DELETE (''/key/sshrsa/'' @ key_id @ ''/'')) c))
        response_valid = Inr b"
    by (simp add: delete_ssh_key_def split: prod.splits)
  have pw: "delete_password_key tr key_id c = (Inr b, c') \<Longrightarrow>
      then_do (fst (connection_request tr (DELETE (''/key/password/'' @ key_id @ ''/'')) c))
        response_valid = Inr b"
    by (simp add: delete_password_key_def split: prod.splits)
  show ?thesis
    using key [OF ssh] key [OF pw] by blast
qed

theorem delete_key_result_witness:
  "delete_ssh_key scripted ''70867'' (fresh [ok (JObj [(''response'', JInt 202)])])
     = (Inr True, \<lparr>world = [], calls = [DELETE ''/key/sshrsa/70867/'']\<rparr>)
   \<and> delete_password_key scripted ''70907'' (fresh [ok (JObj [(''data'', JList [])])])
     = (Inr False, \<lparr>world = [], calls = [DELETE ''/key/password/70907/'']\<rparr>)
   \<and> (\<exists>d. fst (connection_request scripted (DELETE (''/key/sshrsa/'' @ ''70867'' @ ''/''))
               (fresh [ok (JObj [(''response'', JInt 202)])])) = Inr (JObj d)
         \<and> (\<exists>code \<in> {200, 201, 202, 204}. map_of d ''response'' = Some (JInt code)))
   \<and> (\<exists>d. fst (connection_request scripted (DELETE (''/key/password/'' @ ''70907'' @ ''/''))
               (fresh [ok (JObj [(''data'', JList [])])])) = Inr (JObj d)
         \<and> \<not> (\<exists>code \<in> {200, 201, 202, 204}. map_of d ''response'' = Some (JInt code)))"
proof -
  have a: "delete_ssh_key scripted ''70867'' (fresh [ok (JObj [(''response'', JInt 202)])])
     = (Inr True, \<lparr>world = [], calls = [DELETE ''/key/sshrsa/70867/'']\<rparr>)"
    by (simp add: delete_ssh_key_def fresh_def connection_request_scripted NephoscaleResponse_ok
        response_valid_def dict_get_def py_in_valid)
  have b: "delete_password_key scripted ''70907'' (fresh [ok (JObj [(''data'', JList [])])])
     = (Inr False, \<lparr>world = [], calls = [DELETE ''/key/password/70907/'']\<rparr>)"
    by (simp add: delete_password_key_def fresh_def connection_request_scripted NephoscaleResponse_ok
        response_valid_def dict_get_def py_in_valid)
  show ?thesis
    using a b
      delete_key_result [THEN conjunct1, rule_format, OF a]
      delete_key_result [THEN conjunct2, rule_format, OF b]
    by blast
qed

subsection \<open>Lifecycle state of a mapped node\<close>

text \<open>
  C4. A record whose \<open>power_status\<close> is none of 'on', 'off', 'unknown' should get the
  state UNKNOWN. The code's fallback is the string '4' instead, which is not the
  constant \<open>NodeState.UNKNOWN\<close> that 'off' and 'unknown' are mapped to: here for the
  status 'paused' and for a record without \<open>power_status\<close>.
\<close>

theorem to_node_unlisted_power_status:
  "(\<exists>n. to_node (JObj [(''name'', JStr ''web''), (''power_status'', JStr ''paused'')]) = Inr n
        \<and> node_state n = Str ''4'' \<and> node_state n \<noteq> State UNKNOWN)
   \<and> (\<exists>n. to_node (JObj [(''name'', JStr ''web'')]) = Inr n
        \<and> node_state n = Str ''4'' \<and> node_state n \<noteq> State UNKNOWN)
   \<and> (\<exists>n. to_node (JObj [(''name'', JStr ''web''), (''power_status'', JStr ''on'')]) = Inr n
        \<and> node_state n = State RUNNING)
   \<and> (\<exists>n. to_node (JObj [(''name'', JStr ''web''), (''power_status'', JStr ''off'')]) = Inr n
        \<and> node_state n = State UNKNOWN)
   \<and> (\<exists>n. to_node (JObj [(''name'', JStr ''web''), (''power_status'', JStr ''unknown'')]) = Inr n
        \<and> node_state n = State UNKNOWN)"
  by (simp add: to_node_def dict_get_def to_ips_def NODE_STATE_MAP_def)

subsection \<open>The creation workflow\<close>




text \<open>
  C2. In a run of \<open>create_node\<close> whose arguments are valid and whose create call
  succeeds, let the listing call number \<open>k + 1\<close> (of the 20) be the first whose result
  has an instance named exactly as requested, the earlier ones having returned
  instances of other names. Then the workflow returns the first instance of that name in
  the order of that listing, and has sent the create call and \<open>k + 1\<close> listing calls,
  no more.
\<close>

theorem create_node_resolved:
  assumes "create_node_data kw = Inr (name, data)"
    and "connection_request tr (POST ''/server/cloud/'' data) c = (Inr obj, c1)"
    and "k < 20"
    and "\<forall>i<k. \<exists>nodes. fst (list_nodes tr (before_listing tr c1 i)) = Inr nodes
            \<and> (\<forall>x \<in> set nodes. node_name x \<noteq> JStr name)"
    and "fst (list_nodes tr (before_listing tr c1 k)) = Inr nodes"
    and "List.find (\<lambda>x. node_name x = JStr name) nodes = Some m"
  shows "\<exists>c'. create_node tr kw c = (Inr m, c')
           \<and> calls c' = calls c @ [POST ''/server/cloud/'' data] @ replicate (Suc k) (GET ''/server/cloud/'')
           \<and> kw_name kw = Some name
           \<and> (\<exists>i<length nodes. m = nodes ! i \<and> node_name m = JStr name
                \<and> (\<forall>j<i. node_name (nodes ! j) \<noteq> JStr name))"
proof -
  have run: "create_node tr kw c = (Inr m, before_listing tr c1 (Suc k))"
    using assms(1,2) poll_found [OF _ assms(4,5,6), of 20] assms(3)
    by (simp add: create_node_def LOGIN_ATTEMPTS_def)
  have "calls c1 = calls c @ [POST ''/server/cloud/'' data]"
    using calls_connection_request [of tr "POST ''/server/cloud/'' data" c] assms(2) by simp
  then have log: "calls (before_listing tr c1 (Suc k))
      = calls c @ [POST ''/server/cloud/'' data] @ replicate (Suc k) (GET ''/server/cloud/'')"
    by (simp only: calls_before_listing append_assoc)
  have name: "kw_name kw = Some name"
    using assms(1)
    by (auto simp: create_node_data_def Let_def split: option.splits if_splits)
  have first: "\<exists>i<length nodes. m = nodes ! i \<and> node_name m = JStr name
      \<and> (\<forall>j<i. node_name (nodes ! j) \<noteq> JStr name)"
    using assms(6) by (auto simp: find_Some_iff)
  show ?thesis
    using run log name first by simp
qed

theorem create_node_resolved_witness:
  "\<exists>c'. create_node scripted staging_kwargs
            (fresh [accepted, other_nodes, other_nodes, other_nodes, staging_nodes])
          = (Inr staging_node, c')
     \<and> calls c' = POST ''/server/cloud/'' staging_data # replicate 4 (GET ''/server/cloud/'')"
proof -
  let ?post = "POST ''/server/cloud/'' staging_data"
  let ?c1 = "\<lparr>world = [other_nodes, other_nodes, other_nodes, staging_nodes], calls = [?post]\<rparr>"
  have create: "connection_request scripted ?post
        (fresh [accepted, other_nodes, other_nodes, other_nodes, staging_nodes])
      = (Inr (JObj [(''response'', JInt 202)]), ?c1)"
    by (simp add: connection_request_scripted accepted_def NephoscaleResponse_ok fresh_def)
  have b1: "before_listing scripted ?c1 (Suc 0)
      = \<lparr>world = [other_nodes, other_nodes, staging_nodes],
         calls = [?post, GET ''/server/cloud/'']\<rparr>"
    by (simp add: before_listing_Suc before_listing_0 list_nodes_other)
  have b2: "before_listing scripted ?c1 (Suc (Suc 0))
      = \<lparr>world = [other_nodes, staging_nodes],
         calls = [?post, GET ''/server/cloud/'', GET ''/server/cloud/'']\<rparr>"
    by (simp add: before_listing_Suc before_listing_0 list_nodes_other)
  have b3: "before_listing scripted ?c1 3
      = \<lparr>world = [staging_nodes],
         calls = [?post, GET ''/server/cloud/'', GET ''/server/cloud/'', GET ''/server/cloud/'']\<rparr>"
    by (simp add: numeral_3_eq_3 before_listing_Suc before_listing_0 list_nodes_other)
  have earlier: "\<forall>i<3. \<exists>nodes. fst (list_nodes scripted (before_listing scripted ?c1 i)) = Inr nodes
      \<and> (\<forall>x \<in> set nodes. node_name x \<noteq> JStr ''staging-1'')"
    by (simp add: numeral_3_eq_3 less_Suc_eq before_listing_0 b1 b2 list_nodes_other db_node_def)
  have fourth: "fst (list_nodes scripted (before_listing scripted ?c1 3))
      = Inr [db_node, staging_node, late_node]"
    by (simp add: b3 list_nodes_staging)
  have first: "List.find (\<lambda>x. node_name x = JStr ''staging-1'') [db_node, staging_node, late_node]
      = Some staging_node"
    by (simp add: db_node_def staging_node_def)
  have "(3::nat) < 20" by simp
  from create_node_resolved [OF staging_kwargs_data create this earlier fourth first]
  show ?thesis
    by (auto simp: fresh_def eval_nat_numeral)
qed

subsection \<open>Listings of an envelope without data\<close>

text \<open>
  C10. When the request of a listing operation returns an envelope (a dictionary)
  without a \<open>data\<close> entry, \<open>list_locations\<close>, \<open>list_images\<close>, \<open>list_sizes\<close>,
  \<open>list_nodes\<close> and \<open>list_all_keys\<close> return the empty list and raise nothing; in the
  polling loop of \<open>create_node\<close> such a listing is no match, and the loop goes on with
  the attempts that are left.
\<close>

theorem listing_without_data:
  assumes "map_of d ''data'' = None"
  shows "(fst (connection_request tr (GET ''/datacenter/'') c) = Inr (JObj d)
            \<longrightarrow> fst (list_locations tr c) = Inr [])
       \<and> (fst (connection_request tr (GET ''/image/server/'') c) = Inr (JObj d)
            \<longrightarrow> fst (list_images tr c) = Inr [])
       \<and> (fst (connection_request tr (GET ''/server/type/cloud/'') c) = Inr (JObj d)
            \<longrightarrow> fst (list_sizes get_size_price tr c) = Inr [])
       \<and> (fst (connection_request tr (GET ''/server/cloud/'') c) = Inr (JObj d)
            \<longrightarrow> fst (list_nodes tr c) = Inr []
              \<and> poll tr name (Suc attempts) c = poll tr name attempts (snd (list_nodes tr c)))
       \<and> (fst (connection_request tr (GET ''/key/'') c) = Inr (JObj d)
            \<longrightarrow> fst (list_all_keys tr key_group c) = Inr [])"
proof -
  note dv = data_values_absent [OF assms]
  have nodes: "fst (list_nodes tr c) = Inr []"
    if "fst (connection_request tr (GET ''/server/cloud/'') c) = Inr (JObj d)"
    using that by (simp add: fst_list_nodes dv)
  have "poll tr name (Suc attempts) c = poll tr name attempts (snd (list_nodes tr c))"
    if "fst (connection_request tr (GET ''/server/cloud/'') c) = Inr (JObj d)"
    using poll_Suc_no_match [OF nodes [OF that]] by simp
  moreover have "fst (list_locations tr c) = Inr []"
    if "fst (connection_request tr (GET ''/datacenter/'') c) = Inr (JObj d)"
    using that by (simp add: list_locations_def fst_split dv)
  moreover have "fst (list_images tr c) = Inr []"
    if "fst (connection_request tr (GET ''/image/server/'') c) = Inr (JObj d)"
    using that by (simp add: list_images_def fst_split dv)
  moreover have "fst (list_sizes get_size_price tr c) = Inr []"
    if "fst (connection_request tr (GET ''/server/type/cloud/'') c) = Inr (JObj d)"
    using that by (simp add: list_sizes_def sizes_unsorted_def fst_split dv)
  moreover have "fst (list_all_keys tr key_group c) = Inr []"
    if "fst (connection_request tr (GET ''/key/'') c) = Inr (JObj d)"
    using that by (simp add: list_all_keys_def fst_split dv split: option.splits)
  ultimately show ?thesis
    using nodes by blast
qed

theorem listing_without_data_witness:
  "map_of [(''response'', JInt 200)] ''data'' = None
   \<and> fst (list_locations (answering accepted_200) (fresh ())) = Inr []
   \<and> fst (list_images (answering accepted_200) (fresh ())) = Inr []
   \<and> fst (list_sizes three_prices (answering accepted_200) (fresh ())) = Inr []
   \<and> fst (list_nodes (answering accepted_200) (fresh ())) = Inr []
   \<and> fst (list_all_keys (answering accepted_200) (Some 4) (fresh ())) = Inr []
   \<and> poll (answering accepted_200) ''staging-1'' (Suc 19) (fresh ())
       = poll (answering accepted_200) ''staging-1'' 19 (snd (list_nodes (answering accepted_200) (fresh ())))"
proof -
  have d: "map_of [(''response'', JInt 200)] ''data'' = None"
    by simp
  have rq: "fst (connection_request (answering accepted_200) rq (fresh ()))
      = Inr (JObj [(''response'', JInt 200)])" for rq
    by (simp add: connection_request_answering accepted_200_def NephoscaleResponse_ok)
  show ?thesis
    using d rq
      listing_without_data [OF d, of "answering accepted_200" "fresh ()" three_prices
        "''staging-1''" 19 "Some 4"]
    by simp
qed

subsection \<open>The size catalogue\<close>

text \<open>
  C6. The list that \<open>list_sizes\<close> returns is sorted by price, non-decreasing, whatever
  the order of the catalogue in the provider's response; it has the sizes made of the
  response's records, and the sizes of one price are in the order of the response.
\<close>

theorem list_sizes_sorted_stable:
  assumes "list_sizes get_size_price tr c = (Inr sizes, c')"
  shows "sorted (map size_price sizes)
       \<and> (\<exists>result vs raw.
            fst (connection_request tr (GET ''/server/type/cloud/'') c) = Inr result
          \<and> data_values result = Inr vs
          \<and> map (to_size get_size_price) vs = map Inr raw
          \<and> mset sizes = mset raw
          \<and> (\<forall>p. filter (\<lambda>s. size_price s = p) sizes = filter (\<lambda>s. size_price s = p) raw))"
proof -
  from assms have "then_do (fst (connection_request tr (GET ''/server/type/cloud/'') c))
      (\<lambda>result. then_do (sizes_unsorted get_size_price result)
         (\<lambda>sizes. Inr (sort_key size_price sizes))) = Inr sizes"
    by (simp add: list_sizes_def split: prod.splits)
  then obtain result raw where r: "fst (connection_request tr (GET ''/server/type/cloud/'') c) = Inr result"
    and u: "sizes_unsorted get_size_price result = Inr raw"
    and s: "sizes = sort_key size_price raw"
    by (auto simp: then_do_Inr_iff)
  from u obtain vs where vs: "data_values result = Inr vs"
    and m: "map_exn (to_size get_size_price) vs = Inr raw"
    by (auto simp: sizes_unsorted_def then_do_Inr_iff)
  have "sorted (map size_price sizes)"
    by (simp add: s)
  moreover have "mset sizes = mset raw"
    by (simp add: s)
  moreover have "filter (\<lambda>x. size_price x = p) sizes = filter (\<lambda>x. size_price x = p) raw" for p
    by (simp add: s sort_key_stable)
  ultimately show ?thesis
    using r vs map_exn_Inr [OF m] by blast
qed

theorem list_sizes_sorted_stable_witness:
  "list_sizes three_prices scripted (fresh [three_sizes])
     = (Inr [size_of 2 ''small'' 3, size_of 3 ''tiny'' 3, size_of 1 ''large'' 5],
        \<lparr>world = [], calls = [GET ''/server/type/cloud/'']\<rparr>)
   \<and> sorted (map size_price [size_of 2 ''small'' 3, size_of 3 ''tiny'' 3, size_of 1 ''large'' 5])"
  using list_sizes_three list_sizes_sorted_stable [OF list_sizes_three]
  by blast

subsection \<open>Addresses of a mapped node\<close>

text \<open>
  C5. The address lists are a function of the address string alone. Every string is
  the join by commas of its tokens, which have no comma. For a string that is not
  empty, each token has its space characters (U+0020, no other white space) taken out
  by \<open>replace(' ', '')\<close>; it then goes to the private list when it begins with '10.' or
  with '192.168' and to the public list otherwise, in the order of the string. The
  empty string and a record without \<open>ipaddresses\<close> give two empty lists, no string
  makes this step raise, and the node that \<open>to_node\<close> returns carries the two lists.
\<close>

theorem address_classification:
  "(ts \<noteq> [] \<and> (\<forall>t \<in> set ts. CHR '','' \<notin> set t) \<and> comma_join ts \<noteq> [] \<longrightarrow>
      to_ips (JStr (comma_join ts)) =
        Inr (filter (\<lambda>t. \<not> (prefix ''10.'' t \<or> prefix ''192.168'' t))
               (map (filter (\<lambda>c. c \<noteq> CHR '' '')) ts),
             filter (\<lambda>t. prefix ''10.'' t \<or> prefix ''192.168'' t)
               (map (filter (\<lambda>c. c \<noteq> CHR '' '')) ts)))
   \<and> (\<exists>us. us \<noteq> [] \<and> (\<forall>t \<in> set us. CHR '','' \<notin> set t) \<and> s = comma_join us)
   \<and> to_ips (JStr '''') = Inr ([], [])
   \<and> (map_of d ''ipaddresses'' = None
        \<longrightarrow> to_ips (dict_get d ''ipaddresses'' (JStr '''')) = Inr ([], []))
   \<and> (to_node (JObj d) = Inr n
        \<longrightarrow> (\<exists>pub priv.
               to_ips (dict_get d ''ipaddresses'' (JStr '''')) = Inr (pub, priv)
             \<and> public_ips n = JList (map JStr pub)
             \<and> private_ips n = JList (map JStr priv)))"
proof -
  have a: "to_ips (JStr (comma_join ts)) =
        Inr (filter (\<lambda>t. \<not> (prefix ''10.'' t \<or> prefix ''192.168'' t))
               (map (filter (\<lambda>c. c \<noteq> CHR '' '')) ts),
             filter (\<lambda>t. prefix ''10.'' t \<or> prefix ''192.168'' t)
               (map (filter (\<lambda>c. c \<noteq> CHR '' '')) ts))"
    if "ts \<noteq> []" "\<forall>t \<in> set ts. CHR '','' \<notin> set t" "comma_join ts \<noteq> []"
    using that(3)
    by (simp add: to_ips_def classify_ips_filter split_comma_join [OF that(1,2)]
        startswith_prefix replace_spaces_filter)
  have tokens: "\<exists>us. us \<noteq> [] \<and> (\<forall>t \<in> set us. CHR '','' \<notin> set t) \<and> s = comma_join us"
    using split_not_Nil [of "CHR '',''" s] split_tokens [of _ "CHR '',''" s]
      comma_join_split [of s]
    by (intro exI [of _ "split CHR '','' s"]) auto
  have e: "to_ips (JStr '''') = Inr ([], [])"
    by (simp add: to_ips_def)
  have b: "to_ips (dict_get d ''ipaddresses'' (JStr '''')) = Inr ([], [])"
    if "map_of d ''ipaddresses'' = None"
    using that by (simp add: dict_get_def to_ips_def)
  have c: "\<exists>pub priv.
               to_ips (dict_get d ''ipaddresses'' (JStr '''')) = Inr (pub, priv)
             \<and> public_ips n = JList (map JStr pub)
             \<and> private_ips n = JList (map JStr priv)"
    if "to_node (JObj d) = Inr n"
    using that unfolding to_node_JObj then_do_Inr_iff by auto
  show ?thesis
    using a tokens e b c by blast
qed

theorem address_classification_witness:
  "to_ips (JStr ''198.51.100.7,  10. 0.0.5 ,192.168.1.1,,1 0.1.1.1,110.2.2.2'')
     = Inr ([''198.51.100.7'', '''', ''110.2.2.2''], [''10.0.0.5'', ''192.168.1.1'', ''10.1.1.1''])
   \<and> to_ips (dict_get [(''name'', JStr ''db-1''), (''id'', JStr ''7'')] ''ipaddresses'' (JStr ''''))
        = Inr ([], [])
   \<and> (\<exists>pub priv.
         to_ips (dict_get [(''name'', JStr ''staging-1''), (''id'', JStr ''999''),
           (''ipaddresses'', JStr ''198.51.100.7, 10.0.0.5''), (''power_status'', JStr ''on'')]
           ''ipaddresses'' (JStr '''')) = Inr (pub, priv)
       \<and> public_ips staging_node = JList (map JStr pub)
       \<and> private_ips staging_node = JList (map JStr priv))"
proof -
  let ?ts = "[''198.51.100.7'', ''  10. 0.0.5 '', ''192.168.1.1'', '''', ''1 0.1.1.1'', ''110.2.2.2'']"
  have h: "?ts \<noteq> [] \<and> (\<forall>t \<in> set ?ts. CHR '','' \<notin> set t) \<and> comma_join ?ts \<noteq> []"
    by simp
  have m: "map_of [(''name'', JStr ''db-1''), (''id'', JStr ''7'')] ''ipaddresses'' = None"
    by simp
  have "to_ips (JStr (comma_join ?ts))
     = Inr ([''198.51.100.7'', '''', ''110.2.2.2''], [''10.0.0.5'', ''192.168.1.1'', ''10.1.1.1''])"
    using address_classification [THEN conjunct1, rule_format, OF h] by simp
  then have first: "to_ips (JStr ''198.51.100.7,  10. 0.0.5 ,192.168.1.1,,1 0.1.1.1,110.2.2.2'')
     = Inr ([''198.51.100.7'', '''', ''110.2.2.2''], [''10.0.0.5'', ''192.168.1.1'', ''10.1.1.1''])"
    by simp
  show ?thesis
    using first
      address_classification [THEN conjunct2, THEN conjunct2, THEN conjunct2, THEN conjunct1,
        rule_format, OF m]
      address_classification [THEN conjunct2, THEN conjunct2, THEN conjunct2, THEN conjunct2,
        rule_format, OF to_node_staging]
    by blast
qed

theorem address_classification_counterexample:
  "to_ips (JStr (''8.8.8.8,'' @ CHR 0x09 # ''10.0.0.5''))
     = Inr ([''8.8.8.8'', CHR 0x09 # ''10.0.0.5''], [])
   \<and> map_sum id private_ips
        (to_node (JObj [(''ipaddresses'', JStr (''8.8.8.8,'' @ CHR 0x09 # ''10.0.0.5''))]))
     = Inr (JList [])
   \<and> map_sum id public_ips
        (to_node (JObj [(''ipaddresses'', JStr (''8.8.8.8,'' @ CHR 0x09 # ''10.0.0.5''))]))
     = Inr (JList [JStr ''8.8.8.8'', JStr (CHR 0x09 # ''10.0.0.5'')])"
  by (simp add: to_node_def dict_get_def to_ips_def replace_spaces_def startswith_def)

subsection \<open>Missing fields of a raw node record\<close>

text \<open>
  C9. On a record that is a dictionary, \<open>to_node\<close> fails only because of an entry
  that is present: a \<open>power_status\<close> that cannot be hashed, an \<open>ipaddresses\<close> that is
  true and not a string, or a \<open>zone\<close>, \<open>image\<close> or \<open>service_type\<close> that is not a
  dictionary. A missing entry never makes it fail, and the node it returns has the
  default for every entry that is missing: the fallback state (the string '4'), no
  addresses, and \<open>None\<close> for the id, the name, the hostname, the zone and its name, the
  image name, the service-type name and the other fields of \<open>extra\<close>.
\<close>

theorem to_node_missing_fields:
  "(to_node (JObj d) = Inl e \<longrightarrow>
        (\<exists>v. map_of d ''power_status'' = Some v \<and> NODE_STATE_MAP_get v (Str ''4'') = Inl e)
      \<or> (\<exists>v. map_of d ''ipaddresses'' = Some v \<and> to_ips v = Inl e)
      \<or> (\<exists>k v. (k = ''zone'' \<or> k = ''image'' \<or> k = ''service_type'')
             \<and> map_of d k = Some v \<and> (\<forall>x. v \<noteq> JObj x)))
   \<and> (to_node (JObj d) = Inr n \<longrightarrow>
        (map_of d ''power_status'' = None \<longrightarrow> node_state n = Str ''4'')
      \<and> (map_of d ''ipaddresses'' = None \<longrightarrow> public_ips n = JList [] \<and> private_ips n = JList [])
      \<and> (map_of d ''id'' = None \<longrightarrow> node_id n = JNull)
      \<and> (map_of d ''name'' = None \<longrightarrow> node_name n = JNull)
      \<and> (\<exists>x. node_extra n = Some x
           \<and> (map_of d ''zone'' = None \<longrightarrow> ex_zone_data x = JNull \<and> ex_zone x = JNull)
           \<and> (map_of d ''image'' = None \<longrightarrow> ex_image x = JNull)
           \<and> (map_of d ''service_type'' = None \<longrightarrow> ex_service_type x = JNull)
           \<and> (map_of d ''hostname'' = None \<longrightarrow> ex_hostname x = JNull)
           \<and> (map_of d ''create_time'' = None \<longrightarrow> ex_create_time x = JNull)
           \<and> (map_of d ''network_ports'' = None \<longrightarrow> ex_network_ports x = JNull)
           \<and> (map_of d ''is_console_enabled'' = None \<longrightarrow> ex_is_console_enabled x = JNull)))"
proof -
  have nested: "\<exists>v. map_of d k = Some v \<and> (\<forall>x. v \<noteq> JObj x)"
    if "py_get (dict_get d k (JObj [])) f JNull = Inl e" for k f
    using that by (cases "map_of d k"; cases "dict_get d k (JObj [])") (auto simp: dict_get_def)
  have nested_ok: "py_get (dict_get d k (JObj [])) f JNull = Inr v \<Longrightarrow> map_of d k = None \<Longrightarrow> v = JNull"
    for k f v
    by (simp add: dict_get_def)
  have state: "\<exists>v. map_of d ''power_status'' = Some v \<and> NODE_STATE_MAP_get v (Str ''4'') = Inl e"
    if "NODE_STATE_MAP_get (dict_get d ''power_status'' JNull) (Str ''4'') = Inl e"
    using that by (cases "map_of d ''power_status''") (auto simp: dict_get_def)
  have ips: "\<exists>v. map_of d ''ipaddresses'' = Some v \<and> to_ips v = Inl e"
    if "to_ips (dict_get d ''ipaddresses'' (JStr '''')) = Inl e"
    using that by (cases "map_of d ''ipaddresses''") (auto simp: dict_get_def to_ips_def)
  have fails: "(\<exists>v. map_of d ''power_status'' = Some v \<and> NODE_STATE_MAP_get v (Str ''4'') = Inl e)
      \<or> (\<exists>v. map_of d ''ipaddresses'' = Some v \<and> to_ips v = Inl e)
      \<or> (\<exists>k v. (k = ''zone'' \<or> k = ''image'' \<or> k = ''service_type'')
             \<and> map_of d k = Some v \<and> (\<forall>x. v \<noteq> JObj x))"
    if "to_node (JObj d) = Inl e"
  proof -
    from that consider
        "NODE_STATE_MAP_get (dict_get d ''power_status'' JNull) (Str ''4'') = Inl e"
      | "to_ips (dict_get d ''ipaddresses'' (JStr '''')) = Inl e"
      | "py_get (dict_get d ''zone'' (JObj [])) ''name'' JNull = Inl e"
      | "py_get (dict_get d ''image'' (JObj [])) ''friendly_name'' JNull = Inl e"
      | "py_get (dict_get d ''service_type'' (JObj [])) ''friendly_name'' JNull = Inl e"
      unfolding to_node_JObj then_do_Inl_iff by fastforce
    then show ?thesis
    proof cases
      case 1
      from state [OF this] show ?thesis by blast
    next
      case 2
      from ips [OF this] show ?thesis by blast
    next
      case 3
      from nested [OF this] show ?thesis by blast
    next
      case 4
      from nested [OF this] show ?thesis by blast
    next
      case 5
      from nested [OF this] show ?thesis by blast
    qed
  qed
  have returns: "(map_of d ''power_status'' = None \<longrightarrow> node_state n = Str ''4'')
      \<and> (map_of d ''ipaddresses'' = None \<longrightarrow> public_ips n = JList [] \<and> private_ips n = JList [])
      \<and> (map_of d ''id'' = None \<longrightarrow> node_id n = JNull)
      \<and> (map_of d ''name'' = None \<longrightarrow> node_name n = JNull)
      \<and> (\<exists>x. node_extra n = Some x
           \<and> (map_of d ''zone'' = None \<longrightarrow> ex_zone_data x = JNull \<and> ex_zone x = JNull)
           \<and> (map_of d ''image'' = None \<longrightarrow> ex_image x = JNull)
           \<and> (map_of d ''service_type'' = None \<longrightarrow> ex_service_type x = JNull)
           \<and> (map_of d ''hostname'' = None \<longrightarrow> ex_hostname x = JNull)
           \<and> (map_of d ''create_time'' = None \<longrightarrow> ex_create_time x = JNull)
           \<and> (map_of d ''network_ports'' = None \<longrightarrow> ex_network_ports x = JNull)
           \<and> (map_of d ''is_console_enabled'' = None \<longrightarrow> ex_is_console_enabled x = JNull))"
    if "to_node (JObj d) = Inr n"
  proof -
    from that obtain st a z i t where
      st: "NODE_STATE_MAP_get (dict_get d ''power_status'' JNull) (Str ''4'') = Inr st"
      and a: "to_ips (dict_get d ''ipaddresses'' (JStr '''')) = Inr a"
      and z: "py_get (dict_get d ''zone'' (JObj [])) ''name'' JNull = Inr z"
      and i: "py_get (dict_get d ''image'' (JObj [])) ''friendly_name'' JNull = Inr i"
      and t: "py_get (dict_get d ''service_type'' (JObj [])) ''friendly_name'' JNull = Inr t"
      and n: "n = \<lparr>node_id = dict_get d ''id'' JNull, node_name = dict_get d ''name'' JNull,
            node_state = st,
            public_ips = JList (map JStr (fst a)),
            private_ips = JList (map JStr (snd a)),
            node_extra = Some \<lparr>ex_zone_data = dict_get d ''zone'' JNull, ex_zone = z,
              ex_image = i,
              ex_create_time = dict_get d ''create_time'' JNull,
              ex_network_ports = dict_get d ''network_ports'' JNull,
              ex_is_console_enabled = dict_get d ''is_console_enabled'' JNull,
              ex_service_type = t,
              ex_hostname = dict_get d ''hostname'' JNull\<rparr>\<rparr>"
      unfolding to_node_JObj then_do_Inr_iff by blast
    have 1: "map_of d ''power_status'' = None \<Longrightarrow> st = Str ''4''"
      using st by (simp add: dict_get_def)
    have 2: "map_of d ''ipaddresses'' = None \<Longrightarrow> a = ([], [])"
      using a by (simp add: dict_get_def to_ips_def)
    have 3: "map_of d k = None \<Longrightarrow> dict_get d k JNull = JNull" for k
      by (simp add: dict_get_def)
    show ?thesis
      unfolding n using 1 2 3 nested_ok [OF z] nested_ok [OF i] nested_ok [OF t]
      by simp
  qed
  show ?thesis
    using fails returns by blast
qed

theorem to_node_missing_fields_witness:
  "to_node (JObj [(''name'', JStr ''db-1''), (''id'', JStr ''7'')]) = Inr db_node
   \<and> node_state db_node = Str ''4''
   \<and> public_ips db_node = JList [] \<and> private_ips db_node = JList []
   \<and> (\<exists>x. node_extra db_node = Some x \<and> ex_zone_data x = JNull \<and> ex_zone x = JNull
         \<and> ex_image x = JNull \<and> ex_service_type x = JNull \<and> ex_hostname x = JNull
         \<and> ex_create_time x = JNull \<and> ex_network_ports x = JNull
         \<and> ex_is_console_enabled x = JNull)
   \<and> to_node (JObj [(''name'', JStr ''db-1''), (''zone'', JNull)]) = Inl AttributeError
   \<and> (\<exists>k v. (k = ''zone'' \<or> k = ''image'' \<or> k = ''service_type'')
         \<and> map_of [(''name'', JStr ''db-1''), (''zone'', JNull)] k = Some v
         \<and> (\<forall>x. v \<noteq> JObj x))"
proof -
  have bad: "to_node (JObj [(''name'', JStr ''db-1''), (''zone'', JNull)]) = Inl AttributeError"
    by (simp add: to_node_def dict_get_def to_ips_def)
  have a: "\<not> (\<exists>v. map_of [(''name'', JStr ''db-1''), (''zone'', JNull)] ''power_status'' = Some v
      \<and> NODE_STATE_MAP_get v (Str ''4'') = Inl AttributeError)"
    by simp
  have b: "\<not> (\<exists>v. map_of [(''name'', JStr ''db-1''), (''zone'', JNull)] ''ipaddresses'' = Some v
      \<and> to_ips v = Inl AttributeError)"
    by simp
  have absent: "map_of [(''name'', JStr ''db-1''), (''id'', JStr ''7'')] k = None"
    if "k \<noteq> ''name''" "k \<noteq> ''id''" for k
    using that by simp
  show ?thesis
    using to_node_db bad a b
      to_node_missing_fields [THEN conjunct1, rule_format, OF bad]
      to_node_missing_fields [THEN conjunct2, rule_format, OF to_node_db]
    by (simp add: absent)
qed

end
